theory Spec2Isabelle
  imports Main "HOL-Library.AList" "HOL-Library.Sublist"
begin

section \<open>JavaScript values\<close>

text \<open>
  The values that cross the worker boundary. An object is the list of its enumerable own
  properties in enumeration order; numbers are the integers the handler handles
  (identifiers, exit codes, millisecond clocks).
\<close>

datatype jsval =
    JUndefined
  | JNull
  | JBool bool
  | JNum int
  | JStr string
  | JArr "jsval list"
  | JObj "(string \<times> jsval) list"

type_synonym jsobj = "(string \<times> jsval) list"

text \<open>Truthiness, as \<^verbatim>\<open>if (v)\<close> tests it.\<close>

fun js_truthy :: "jsval \<Rightarrow> bool" where
  "js_truthy JUndefined = False"
| "js_truthy JNull = False"
| "js_truthy (JBool b) = b"
| "js_truthy (JNum n) = (n \<noteq> 0)"
| "js_truthy (JStr s) = (s \<noteq> [])"
| "js_truthy (JArr xs) = True"
| "js_truthy (JObj ps) = True"

definition digit_char :: "nat \<Rightarrow> char" where
  "digit_char d = char_of (48 + d)"

fun show_nat :: "nat \<Rightarrow> string" where
  "show_nat n = (if n < 10 then [digit_char n] else show_nat (n div 10) @ [digit_char (n mod 10)])"

declare show_nat.simps [simp del]

definition show_int :: "int \<Rightarrow> string" where
  "show_int i = (if i < 0 then CHR ''-'' # show_nat (nat (- i)) else show_nat (nat i))"

fun join_with :: "string \<Rightarrow> string list \<Rightarrow> string" where
  "join_with sep [] = []"
| "join_with sep [s] = s"
| "join_with sep (s # t # ss) = s @ sep @ join_with sep (t # ss)"

text \<open>
  String conversion, as the \<^verbatim>\<open>+\<close> of a string and a value performs it. An array is
  joined with commas, its null and undefined elements rendered empty.
\<close>

fun js_to_string :: "jsval \<Rightarrow> string" where
  "js_to_string JUndefined = ''undefined''"
| "js_to_string JNull = ''null''"
| "js_to_string (JBool b) = (if b then ''true'' else ''false'')"
| "js_to_string (JNum n) = show_int n"
| "js_to_string (JStr s) = s"
| "js_to_string (JArr xs) =
     join_with '','' (map (\<lambda>x. if x = JUndefined \<or> x = JNull then [] else js_to_string x) xs)"
| "js_to_string (JObj ps) = ''[object Object]''"

text \<open>Property read \<^verbatim>\<open>obj[p]\<close> and property write \<^verbatim>\<open>obj[p] = v\<close> on a property list.\<close>

definition get_prop :: "jsobj \<Rightarrow> string \<Rightarrow> jsval" where
  "get_prop obj p = (case map_of obj p of None \<Rightarrow> JUndefined | Some v \<Rightarrow> v)"

definition set_prop :: "jsobj \<Rightarrow> string \<Rightarrow> jsval \<Rightarrow> jsobj" where
  "set_prop obj p v = AList.update p v obj"

section \<open>Errors\<close>

datatype error_class = ErrorC | TypeErrorC | CancellationErrorC | TimeoutErrorC

text \<open>An error object: the class \<^verbatim>\<open>instanceof\<close> sees, and its properties.\<close>

datatype js_error = JsError (err_class: error_class) (err_props: jsobj)

definition new_Error :: "string \<Rightarrow> js_error" where
  "new_Error msg = JsError ErrorC [(''message'', JStr msg)]"

definition new_TypeError :: "string \<Rightarrow> js_error" where
  "new_TypeError msg = JsError TypeErrorC [(''message'', JStr msg)]"

definition err_get :: "js_error \<Rightarrow> string \<Rightarrow> jsval" where
  "err_get e p = get_prop (err_props e) p"

definition err_set :: "js_error \<Rightarrow> string \<Rightarrow> jsval \<Rightarrow> js_error" where
  "err_set e p v = JsError (err_class e) (set_prop (err_props e) p v)"

section \<open>The error codec: objectToError\<close>

text \<open>
  \<^verbatim>\<open>Object.keys(obj)\<close>: the enumerable own property names. It throws on null and
  undefined, is empty for a number or a boolean, and lists the indices of an array.
\<close>

fun Object_keys :: "jsval \<Rightarrow> js_error + string list" where
  "Object_keys JUndefined = Inl (new_TypeError ''Cannot convert undefined or null to object'')"
| "Object_keys JNull = Inl (new_TypeError ''Cannot convert undefined or null to object'')"
| "Object_keys (JBool b) = Inr []"
| "Object_keys (JNum n) = Inr []"
| "Object_keys (JStr s) = Inr (map show_nat [0 ..< length s])"
| "Object_keys (JArr xs) = Inr (map show_nat [0 ..< length xs])"
| "Object_keys (JObj ps) = Inr (map fst ps)"

text \<open>\<^verbatim>\<open>obj[p]\<close> for a property name out of \<^verbatim>\<open>Object.keys(obj)\<close>.\<close>

fun js_index :: "jsval \<Rightarrow> string \<Rightarrow> jsval" where
  "js_index (JObj ps) p = get_prop ps p"
| "js_index (JArr xs) p = get_prop (zip (map show_nat [0 ..< length xs]) xs) p"
| "js_index (JStr s) p = get_prop (zip (map show_nat [0 ..< length s]) (map (\<lambda>c. JStr [c]) s)) p"
| "js_index v p = JUndefined"

text \<open>The loop \<^verbatim>\<open>for (i = 0; i < props.length; i++) temp[props[i]] = obj[props[i]]\<close>.\<close>

fun copy_props :: "jsval \<Rightarrow> string list \<Rightarrow> js_error \<Rightarrow> js_error" where
  "copy_props obj [] temp = temp"
| "copy_props obj (p # props) temp = copy_props obj props (err_set temp p (js_index obj p))"

definition objectToError :: "jsval \<Rightarrow> js_error + js_error" where
  "objectToError obj =
     (case obj of
        JStr s \<Rightarrow> Inr (new_Error s)
      | _ \<Rightarrow> (case Object_keys obj of
                Inl e \<Rightarrow> Inl e
              | Inr props \<Rightarrow> Inr (copy_props obj props (new_Error ''''))))"

section \<open>The transport object\<close>

text \<open>
  The object \<^verbatim>\<open>setupWorker\<close> returns, with the properties the handler reads and
  writes. \<open>kill_fn\<close>, \<open>terminate_fn\<close> and \<open>removeAllListeners_fn\<close> say whether the
  property of that name is a function. \<open>on_wrapped\<close> holds when \<^verbatim>\<open>on\<close> is the wrapper
  of \<^verbatim>\<open>setupBrowserWorker\<close>, which calls a listener as a plain function, so that
  \<^verbatim>\<open>this\<close> is undefined inside it (the module is in strict mode); an event emitter
  of node.js calls a listener with the emitter as \<^verbatim>\<open>this\<close>. \<open>own_maxExec\<close> and
  \<open>own_responseCount\<close> are the properties \<^verbatim>\<open>maxExec\<close> and \<^verbatim>\<open>responseCount\<close> of the
  transport object itself (\<open>None\<close> is undefined); no function of the module assigns them.
\<close>

record worker =
  isBrowserWorker :: bool
  isWorkerThread :: bool
  isChildProcess :: bool
  ready :: bool
  killed :: bool
  kill_fn :: bool
  terminate_fn :: bool
  removeAllListeners_fn :: bool
  on_wrapped :: bool
  own_maxExec :: "nat option"
  own_responseCount :: "nat option"
  spawnargs :: jsval
  spawnfile :: jsval
  stdout :: jsval
  stderr :: jsval

datatype platform = Browser | Node

text \<open>
  The host: what \<^verbatim>\<open>environment.platform\<close> says, and the objects the host's
  constructors hand out (\<open>None\<close> where the host has no such constructor).
\<close>

record environment =
  env_platform :: platform
  worker_threads :: "worker option"
  web_worker :: "worker option"
  child_process :: worker
  blob_defined :: bool
  createObjectURL_defined :: bool
  blob_url :: string
  dirname :: string

definition getDefaultWorker :: "environment \<Rightarrow> js_error + string" where
  "getDefaultWorker env =
     (if env_platform env = Browser then
        (if \<not> blob_defined env then Inl (new_Error ''Blob not supported by the browser'')
         else if \<not> createObjectURL_defined env
           then Inl (new_Error ''URL.createObjectURL not supported by the browser'')
         else Inr (blob_url env))
      else Inr (dirname env @ ''/worker.js''))"

definition setupBrowserWorker :: "worker \<Rightarrow> worker" where
  "setupBrowserWorker w = w\<lparr>isBrowserWorker := True, on_wrapped := True\<rparr>"

definition setupWorkerThreadWorker :: "worker \<Rightarrow> worker" where
  "setupWorkerThreadWorker w = w\<lparr>isWorkerThread := True, kill_fn := True\<rparr>"

definition setupProcessWorker :: "worker \<Rightarrow> worker" where
  "setupProcessWorker w = w\<lparr>isChildProcess := True\<rparr>"

definition ensureWebWorker :: "environment \<Rightarrow> js_error + worker" where
  "ensureWebWorker env =
     (case web_worker env of
        None \<Rightarrow> Inl (new_Error ''WorkerPool: Web Workers not supported'')
      | Some w \<Rightarrow> Inr w)"

definition ensureWorkerThreads :: "environment \<Rightarrow> js_error + worker" where
  "ensureWorkerThreads env =
     (case worker_threads env of
        None \<Rightarrow> Inl (new_Error
          ''WorkerPool: workerType = 'thread' is not supported, Node >= 11.7.0 required'')
      | Some w \<Rightarrow> Inr w)"

text \<open>
  \<open>workerType\<close> is the option as given (\<open>None\<close> when absent). The fork options
  \<^verbatim>\<open>resolveForkOptions\<close> computes only parameterise the spawn and are left out.
\<close>

definition setupWorker :: "environment \<Rightarrow> string option \<Rightarrow> js_error + worker" where
  "setupWorker env workerType =
     (if workerType = Some ''web'' then
        (case ensureWebWorker env of Inl e \<Rightarrow> Inl e | Inr w \<Rightarrow> Inr (setupBrowserWorker w))
      else if workerType = Some ''thread'' then
        (case ensureWorkerThreads env of Inl e \<Rightarrow> Inl e
         | Inr w \<Rightarrow> Inr (setupWorkerThreadWorker w))
      else if workerType = Some ''process'' \<or> workerType = None \<or> workerType = Some [] then
        Inr (setupProcessWorker (child_process env))
      else if env_platform env = Browser then
        (case ensureWebWorker env of Inl e \<Rightarrow> Inl e | Inr w \<Rightarrow> Inr (setupBrowserWorker w))
      else
        (case worker_threads env of
           Some w \<Rightarrow> Inr (setupWorkerThreadWorker w)
         | None \<Rightarrow> Inr (setupProcessWorker (child_process env))))"

section \<open>The handler's state\<close>

text \<open>Messages sent to the worker: a request, or a bare string.\<close>

datatype out_msg = Request nat string jsval | OutString string

definition TERMINATE_METHOD_ID :: string where
  "TERMINATE_METHOD_ID = ''__workerpool-terminate__''"

text \<open>
  Messages received from the worker: a bare string, or an object with the fields the
  listener reads. A response names its task by \<open>r_id\<close>; \<open>r_isEvent\<close> is the
  truthiness of \<^verbatim>\<open>isEvent\<close>.
\<close>

record response =
  r_id :: nat
  r_isEvent :: bool
  r_payload :: jsval
  r_error :: jsval
  r_result :: jsval

datatype in_msg = InString string | InObject response

text \<open>
  \<open>on_cb\<close> names the function \<^verbatim>\<open>options.on\<close> (\<open>None\<close> when it is not a function);
  \<open>resolver\<close> names the task's deferred.
\<close>

record exec_options =
  on_cb :: "nat option"

record task =
  t_id :: nat
  resolver :: nat
  options :: "exec_options option"
  started :: int

text \<open>\<^verbatim>\<open>minTime\<close> starts at \<^verbatim>\<open>Infinity\<close>.\<close>

datatype time_bound = Infinity | Finite int

text \<open>
  The callback a call of \<^verbatim>\<open>terminate\<close> stashes: a function of the caller, or the
  closure of \<^verbatim>\<open>terminateAndNotify\<close> settling the deferred of that name.
\<close>

datatype term_callback = UserCallback nat | NotifyResolver nat

text \<open>
  What the handler does to the outside, in order: messages handed to the transport,
  settlements of deferreds, calls of the callbacks supplied by the caller, and calls of
  the transport's methods. A callback or a settlement is recorded as a call and returns;
  what the called function does to the handler in turn is an event of its own.
\<close>

datatype effect =
    Send out_msg
  | Reject nat js_error
  | Resolve nat jsval
  | CallOnWorkerExit
  | CallOnWorkerReady
  | CallOn nat jsval
  | CallTerminationHandler nat "js_error option"
  | RejectDeferred nat js_error
  | ResolveDeferred nat
  | AssignTimeoutProperty nat nat
  | Kill
  | TerminateWorker
  | RemoveAllListeners

text \<open>
  The handler object and the variables its closures share. \<open>transport\<close> is the object
  \<^verbatim>\<open>setupWorker\<close> returned (the closures keep it as \<^verbatim>\<open>worker\<close>), and \<open>worker_set\<close>
  says that \<^verbatim>\<open>this.worker\<close> still refers to it (cleanup sets \<^verbatim>\<open>this.worker\<close> to
  null). \<open>exit_cb\<close> and \<open>ready_cb\<close> say that the closure variables \<^verbatim>\<open>_onWorkerExit\<close>
  and \<^verbatim>\<open>_onWorkerReady\<close> hold a function. \<open>readyTimeoutTimer\<close> is the armed readiness
  timer with its delay; \<open>exitTimers\<close> counts the armed \<^verbatim>\<open>cleanExitTimeout\<close> timers and
  \<open>exitOnce\<close> the \<^verbatim>\<open>once("exit")\<close> listeners \<^verbatim>\<open>terminate\<close> has registered.
  \<open>processing\<close> lists the tasks in progress by identifier, in the order \<^verbatim>\<open>for .. in\<close>
  enumerates them.
\<close>

record handler =
  script :: string
  transport :: worker
  worker_set :: bool
  concurrency :: nat
  requestCount :: nat
  responseCount :: nat
  maxExec :: nat
  totalTime :: int
  minTime :: time_bound
  maxTime :: int
  lastTime :: int
  markNotReadyAfterExec :: bool
  readyTimeoutDuration :: "nat option"
  initReadyTimeoutDuration :: "nat option"
  exit_cb :: bool
  ready_cb :: bool
  readyTimeoutTimer :: "nat option"
  requestQueue :: "out_msg list"
  processing :: "(nat \<times> task) list"
  terminating :: bool
  terminated :: bool
  terminationHandler :: "term_callback option"
  lastId :: nat
  exitTimers :: nat
  exitOnce :: nat
  trace :: "effect list"

text \<open>
  A call either returns or throws; both leave the handler in the state reached.
\<close>

datatype outcome = Returned handler | Threw js_error handler

fun state_of :: "outcome \<Rightarrow> handler" where
  "state_of (Returned h) = h"
| "state_of (Threw e h) = h"

fun and_then :: "outcome \<Rightarrow> (handler \<Rightarrow> outcome) \<Rightarrow> outcome" where
  "and_then (Returned h) f = f h"
| "and_then (Threw e h) f = Threw e h"

definition emit :: "effect \<Rightarrow> handler \<Rightarrow> handler" where
  "emit x h = h\<lparr>trace := trace h @ [x]\<rparr>"

section \<open>The handler's closures\<close>

definition onWorkerExit :: "handler \<Rightarrow> handler" where
  "onWorkerExit h =
     (let h1 = (if exit_cb h then emit CallOnWorkerExit h else h)
      in h1\<lparr>exit_cb := False\<rparr>)"

definition onWorkerReady :: "handler \<Rightarrow> handler" where
  "onWorkerReady h = (if ready_cb h then emit CallOnWorkerReady h else h)"

definition clearReadyTimeout :: "handler \<Rightarrow> handler" where
  "clearReadyTimeout h =
     (case readyTimeoutTimer h of
        None \<Rightarrow> h
      | Some d \<Rightarrow> h\<lparr>readyTimeoutTimer := None\<rparr>)"

definition setReadyTimeout :: "nat option \<Rightarrow> handler \<Rightarrow> handler" where
  "setReadyTimeout timeoutDuration h =
     (let h1 = clearReadyTimeout h
      in case timeoutDuration of
           None \<Rightarrow> h1
         | Some d \<Rightarrow> if d = 0 then h1 else h1\<lparr>readyTimeoutTimer := Some d\<rparr>)"

text \<open>The periodic statistics reset.\<close>

definition stats_reset :: "handler \<Rightarrow> handler" where
  "stats_reset h = h\<lparr>minTime := Infinity, maxTime := 0\<rparr>"

fun reject_each :: "js_error \<Rightarrow> (nat \<times> task) list \<Rightarrow> handler \<Rightarrow> handler" where
  "reject_each e [] h = h"
| "reject_each e (x # xs) h = reject_each e xs (emit (Reject (resolver (snd x)) e) h)"

text \<open>\<^verbatim>\<open>onError\<close>: reject all running tasks on worker error.\<close>

definition onError :: "js_error \<Rightarrow> handler \<Rightarrow> handler" where
  "onError error h =
     (let h1 = h\<lparr>terminated := True\<rparr>;
          h2 = reject_each error (processing h1) h1;
          h3 = h2\<lparr>processing := []\<rparr>
      in onWorkerExit h3)"

fun send_each :: "out_msg list \<Rightarrow> handler \<Rightarrow> handler" where
  "send_each [] h = h"
| "send_each (request # rest) h = send_each rest (emit (Send request) h)"

text \<open>\<^verbatim>\<open>dispatchQueuedRequests\<close>: \<^verbatim>\<open>splice(0)\<close> empties the queue and hands its items over.\<close>

definition dispatchQueuedRequests :: "handler \<Rightarrow> handler" where
  "dispatchQueuedRequests h = send_each (requestQueue h) (h\<lparr>requestQueue := []\<rparr>)"

section \<open>busy, available, terminate\<close>

definition busy :: "handler \<Rightarrow> bool" where
  "busy h = (length (processing h) \<ge> concurrency h)"

definition available :: "handler \<Rightarrow> bool" where
  "available h =
     (worker_set h \<and> \<not> terminated h \<and> \<not> terminating h \<and> ready (transport h) \<and>
      (maxExec h = 0 \<or> requestCount h < maxExec h) \<and> \<not> busy h)"

definition call_terminationHandler ::
  "term_callback \<Rightarrow> js_error option \<Rightarrow> handler \<Rightarrow> handler" where
  "call_terminationHandler cb err h =
     (case cb of
        UserCallback f \<Rightarrow> emit (CallTerminationHandler f err) h
      | NotifyResolver d \<Rightarrow>
          (case err of
             Some e \<Rightarrow> emit (RejectDeferred d e) h
           | None \<Rightarrow> emit (ResolveDeferred d) h))"

definition cleanup :: "js_error option \<Rightarrow> handler \<Rightarrow> outcome" where
  "cleanup err h =
     (let h1 = h\<lparr>terminated := True\<rparr>;
          h2 = (if worker_set h1 \<and> removeAllListeners_fn (transport h1)
                then emit RemoveAllListeners h1 else h1);
          h3 = h2\<lparr>worker_set := False, terminating := False\<rparr>
      in case terminationHandler h3 of
           Some cb \<Rightarrow> Returned (call_terminationHandler cb err h3)
         | None \<Rightarrow> (case err of Some e \<Rightarrow> Threw e h3 | None \<Rightarrow> Returned h3))"

definition set_killed :: "handler \<Rightarrow> handler" where
  "set_killed h = h\<lparr>transport := (transport h)\<lparr>killed := True\<rparr>\<rparr>"

definition terminate :: "bool \<Rightarrow> term_callback option \<Rightarrow> handler \<Rightarrow> outcome" where
  "terminate force callback h =
     (let h1 = clearReadyTimeout h;
          h2 = (if force
                then (reject_each (new_Error ''Worker terminated'') (processing h1) h1)
                       \<lparr>processing := []\<rparr>
                else h1);
          h3 = (case callback of Some cb \<Rightarrow> h2\<lparr>terminationHandler := Some cb\<rparr> | None \<Rightarrow> h2)
      in if \<not> busy h3 then
           (if worker_set h3 then
              (if kill_fn (transport h3) then
                 (if killed (transport h3) then
                    cleanup (Some (new_Error ''worker already killed!'')) h3
                  else if isChildProcess (transport h3) then
                    (let h4 = h3\<lparr>exitTimers := exitTimers h3 + 1, exitOnce := exitOnce h3 + 1\<rparr>
                     in if ready (transport h4)
                        then Returned (emit (Send (OutString TERMINATE_METHOD_ID)) h4)
                        else Returned (h4\<lparr>requestQueue :=
                               requestQueue h4 @ [OutString TERMINATE_METHOD_ID]\<rparr>))
                  else cleanup None (set_killed (emit Kill h3)))
               else if terminate_fn (transport h3) then
                 cleanup None (set_killed (emit TerminateWorker h3))
               else Threw (new_Error ''Failed to terminate worker'') h3)
            else cleanup None h3)
         else Returned (h3\<lparr>terminating := True\<rparr>))"

text \<open>
  \<^verbatim>\<open>terminateAndNotify\<close>: \<open>d\<close> names the deferred \<^verbatim>\<open>Promise.defer()\<close> returns. A
  truthy \<open>timeout\<close> is assigned to the property \<^verbatim>\<open>timeout\<close> of the promise.
\<close>

definition terminateAndNotify :: "bool \<Rightarrow> nat option \<Rightarrow> nat \<Rightarrow> handler \<Rightarrow> outcome" where
  "terminateAndNotify force timeout d h =
     (let h1 = (case timeout of
                  None \<Rightarrow> h
                | Some t \<Rightarrow> if t = 0 then h else emit (AssignTimeoutProperty d t) h)
      in terminate force (Some (NotifyResolver d)) h1)"

section \<open>The timers\<close>

text \<open>The readiness timer expires: its callback calls \<^verbatim>\<open>me.terminate()\<close>.\<close>

definition ready_timer_fired :: "handler \<Rightarrow> outcome" where
  "ready_timer_fired h =
     (case readyTimeoutTimer h of
        None \<Rightarrow> Returned h
      | Some d \<Rightarrow> terminate False None h)"

text \<open>A \<^verbatim>\<open>cleanExitTimeout\<close> expires: kill the worker if the handler still has it.\<close>

definition exit_timer_fired :: "handler \<Rightarrow> handler" where
  "exit_timer_fired h =
     (if exitTimers h = 0 then h
      else (let h1 = h\<lparr>exitTimers := exitTimers h - 1\<rparr>
            in if worker_set h1 then emit Kill h1 else h1))"

section \<open>The message listener\<close>

text \<open>
  The test \<^verbatim>\<open>this.maxExec && this.responseCount >= this.maxExec\<close>, read on the object
  \<^verbatim>\<open>this\<close> is bound to in the listener: the transport object.
\<close>

definition this_maxExec_reached :: "worker \<Rightarrow> bool" where
  "this_maxExec_reached w =
     (case own_maxExec w of
        None \<Rightarrow> False
      | Some k \<Rightarrow> k \<noteq> 0 \<and>
          (case own_responseCount w of None \<Rightarrow> False | Some r \<Rightarrow> r \<ge> k))"

fun less_bound :: "int \<Rightarrow> time_bound \<Rightarrow> bool" where
  "less_bound t Infinity = True"
| "less_bound t (Finite m) = (t < m)"

definition settle :: "response \<Rightarrow> task \<Rightarrow> handler \<Rightarrow> outcome" where
  "settle r t h =
     (if js_truthy (r_error r) then
        (case objectToError (r_error r) of
           Inl e \<Rightarrow> Threw e h
         | Inr e \<Rightarrow> Returned (emit (Reject (resolver t) e) h))
      else Returned (emit (Resolve (resolver t) (r_result r)) h))"

text \<open>The branch of a terminal (non-event) response; \<open>now\<close> is \<^verbatim>\<open>Date.now()\<close>.\<close>

definition terminal_response :: "int \<Rightarrow> response \<Rightarrow> task \<Rightarrow> handler \<Rightarrow> outcome" where
  "terminal_response now r t h =
     (let timeSpent = now - started t;
          h1 = h\<lparr>lastTime := timeSpent\<rparr>;
          h2 = (if timeSpent > maxTime h1 then h1\<lparr>maxTime := timeSpent\<rparr> else h1);
          h3 = (if less_bound timeSpent (minTime h2) then h2\<lparr>minTime := Finite timeSpent\<rparr>
                else h2);
          h4 = h3\<lparr>totalTime := totalTime h3 + timeSpent\<rparr>;
          h5 = h4\<lparr>responseCount := responseCount h4 + 1\<rparr>
      in and_then
           (if markNotReadyAfterExec h5 then
              (if \<not> worker_set h5
               then Threw (new_TypeError ''Cannot set properties of null (setting 'ready')'') h5
               else Returned (setReadyTimeout (readyTimeoutDuration h5)
                      (h5\<lparr>transport := (transport h5)\<lparr>ready := False\<rparr>\<rparr>)))
            else Returned h5)
           (\<lambda>h6. let h7 = h6\<lparr>processing := AList.delete (r_id r) (processing h6)\<rparr>
                 in and_then
                      (if on_wrapped (transport h7) then
                         Threw (new_TypeError
                           ''Cannot read properties of undefined (reading 'maxExec')'') h7
                       else if this_maxExec_reached (transport h7)
                         then Returned (onWorkerExit (h7\<lparr>terminating := True\<rparr>))
                       else Returned h7)
                      (\<lambda>h8. and_then
                         (if terminating h8 then terminate False None h8 else Returned h8)
                         (settle r t))))"

definition on_message :: "int \<Rightarrow> in_msg \<Rightarrow> handler \<Rightarrow> outcome" where
  "on_message now m h =
     (if terminated h then Returned h
      else case m of
        InString s \<Rightarrow>
          (if s = ''ready'' then
             (let h1 = clearReadyTimeout h
              in if \<not> worker_set h1
                 then Threw (new_TypeError ''Cannot set properties of null (setting 'ready')'') h1
                 else Returned (dispatchQueuedRequests (onWorkerReady
                        (h1\<lparr>transport := (transport h1)\<lparr>ready := True\<rparr>\<rparr>))))
           else Returned h)
      | InObject r \<Rightarrow>
          (case map_of (processing h) (r_id r) of
             None \<Rightarrow> Returned h
           | Some t \<Rightarrow>
               (if r_isEvent r then
                  (case options t of
                     None \<Rightarrow> Returned h
                   | Some opts \<Rightarrow>
                       (case on_cb opts of
                          None \<Rightarrow> Returned h
                        | Some f \<Rightarrow> Returned (emit (CallOn f (r_payload r)) h)))
                else terminal_response now r t h)))"

section \<open>The error and exit listeners\<close>

definition newline :: string where
  "newline = [CHR 0x0A]"

definition exit_message :: "jsval \<Rightarrow> jsval \<Rightarrow> handler \<Rightarrow> string" where
  "exit_message exitCode signalCode h =
     ''Workerpool Worker terminated Unexpectedly'' @ newline @
     ''    exitCode: `'' @ js_to_string exitCode @ ''`'' @ newline @
     ''    signalCode: `'' @ js_to_string signalCode @ ''`'' @ newline @
     ''    workerpool.script: `'' @ script h @ ''`'' @ newline @
     ''    spawnArgs: `'' @ js_to_string (spawnargs (transport h)) @ ''`'' @ newline @
     ''    spawnfile: `'' @ js_to_string (spawnfile (transport h)) @ ''`'' @ newline @
     ''    stdout: `'' @ js_to_string (stdout (transport h)) @ ''`'' @ newline @
     ''    stderr: `'' @ js_to_string (stderr (transport h)) @ ''`'' @ newline"

text \<open>
  One \<^verbatim>\<open>once("exit")\<close> listener of \<^verbatim>\<open>terminate\<close>: cancel its timer, mark the worker
  killed if the handler still has it, clean up.
\<close>

definition exit_once_listener :: "handler \<Rightarrow> outcome" where
  "exit_once_listener h =
     (let h1 = h\<lparr>exitTimers := exitTimers h - 1\<rparr>;
          h2 = (if worker_set h1 then set_killed h1 else h1)
      in cleanup None h2)"

fun run_exit_once :: "nat \<Rightarrow> handler \<Rightarrow> outcome" where
  "run_exit_once 0 h = Returned h"
| "run_exit_once (Suc n) h = and_then (exit_once_listener h) (run_exit_once n)"

text \<open>
  The transport emits \<^verbatim>\<open>"exit"\<close>: the listener of the constructor runs first, then the
  \<^verbatim>\<open>once\<close> listeners registered since, which are thereby removed.
\<close>

definition on_exit :: "jsval \<Rightarrow> jsval \<Rightarrow> handler \<Rightarrow> outcome" where
  "on_exit exitCode signalCode h =
     (let h1 = onError (new_Error (exit_message exitCode signalCode h)) h
      in run_exit_once (exitOnce h1) (h1\<lparr>exitOnce := 0\<rparr>))"

section \<open>exec\<close>

text \<open>
  \<open>res\<close> names the resolver of the task (the one supplied, or a fresh deferred);
  \<open>now\<close> is \<^verbatim>\<open>Date.now()\<close>.
\<close>

definition exec ::
  "int \<Rightarrow> string \<Rightarrow> jsval \<Rightarrow> nat \<Rightarrow> exec_options option \<Rightarrow> handler \<Rightarrow> outcome" where
  "exec now method params res opts h =
     (let tid = lastId h + 1;
          h1 = h\<lparr>lastId := tid\<rparr>;
          h2 = h1\<lparr>processing := AList.update tid
                  \<lparr>t_id = tid, resolver = res, options = opts, started = now\<rparr> (processing h1)\<rparr>;
          h3 = h2\<lparr>requestCount := requestCount h2 + 1\<rparr>;
          request = Request tid method params
      in if terminated h3 then
           Returned (emit (Reject res (new_Error ''Worker is terminated'')) h3)
         else if \<not> worker_set h3 then
           Threw (new_TypeError ''Cannot read properties of null (reading 'ready')'') h3
         else if ready (transport h3) then Returned (emit (Send request) h3)
         else Returned (h3\<lparr>requestQueue := requestQueue h3 @ [request]\<rparr>))"

text \<open>
  The \<^verbatim>\<open>catch\<close> callback \<^verbatim>\<open>exec\<close> attaches to the promise of task \<open>tid\<close>, run when that
  promise rejects with \<open>error\<close>; \<open>d\<close> names the deferred of its \<^verbatim>\<open>terminateAndNotify\<close>.
\<close>

definition exec_catch :: "nat \<Rightarrow> js_error \<Rightarrow> nat \<Rightarrow> handler \<Rightarrow> outcome" where
  "exec_catch tid error d h =
     (if err_class error = CancellationErrorC \<or> err_class error = TimeoutErrorC then
        terminateAndNotify True None d (h\<lparr>processing := AList.delete tid (processing h)\<rparr>)
      else Returned h)"

section \<open>The constructor\<close>

record worker_options =
  workerType :: "string option"
  opt_concurrency :: "nat option"
  opt_maxExec :: "nat option"
  opt_markNotReadyAfterExec :: bool
  opt_readyTimeoutDuration :: "nat option"
  opt_initReadyTimeoutDuration :: "nat option"
  opt_onWorkerExit :: bool
  opt_onWorkerReady :: bool

definition script_given :: "string option \<Rightarrow> bool" where
  "script_given s = (case s of None \<Rightarrow> False | Some x \<Rightarrow> x \<noteq> [])"

text \<open>The state the constructor sets up once the script and the worker are known.\<close>

definition initial_handler :: "string \<Rightarrow> worker \<Rightarrow> worker_options \<Rightarrow> handler" where
  "initial_handler s w opts =
     \<lparr>script = s, transport = w, worker_set = True,
      concurrency = (case opt_concurrency opts of
                       None \<Rightarrow> 1 | Some c \<Rightarrow> if c = 0 then 1 else c),
      requestCount = 0, responseCount = 0,
      maxExec = (case opt_maxExec opts of None \<Rightarrow> 0 | Some k \<Rightarrow> k),
      totalTime = 0, minTime = Infinity, maxTime = 0, lastTime = 0,
      markNotReadyAfterExec = opt_markNotReadyAfterExec opts,
      readyTimeoutDuration = opt_readyTimeoutDuration opts,
      initReadyTimeoutDuration =
        (case opt_initReadyTimeoutDuration opts of
           None \<Rightarrow> opt_readyTimeoutDuration opts | Some d \<Rightarrow> Some d),
      exit_cb = opt_onWorkerExit opts, ready_cb = opt_onWorkerReady opts,
      readyTimeoutTimer = None, requestQueue = [], processing = [],
      terminating = False, terminated = False, terminationHandler = None,
      lastId = 0, exitTimers = 0, exitOnce = 0, trace = []\<rparr>"

text \<open>
  The rest of the constructor: a handler without a script of its own is ready at once
  and says so; the first readiness timer is armed.
\<close>

definition start_handler :: "string option \<Rightarrow> handler \<Rightarrow> handler" where
  "start_handler scr h0 =
     (let h1 = (if \<not> script_given scr
                then onWorkerReady (h0\<lparr>transport := (transport h0)\<lparr>ready := True\<rparr>\<rparr>)
                else h0)
      in setReadyTimeout (initReadyTimeoutDuration h1) h1)"

definition WorkerHandler ::
  "environment \<Rightarrow> string option \<Rightarrow> worker_options \<Rightarrow> js_error + handler" where
  "WorkerHandler env scr opts =
     (case (case scr of
              None \<Rightarrow> getDefaultWorker env
            | Some x \<Rightarrow> if x = [] then getDefaultWorker env else Inr x) of
        Inl e \<Rightarrow> Inl e
      | Inr s \<Rightarrow>
          (case setupWorker env (workerType opts) of
             Inl e \<Rightarrow> Inl e
           | Inr w \<Rightarrow> Inr (start_handler scr (initial_handler s w opts))))"

section \<open>Runs of a handler\<close>

text \<open>
  Everything that can happen to a handler: a call of one of its methods, an event of
  its transport, the expiry of one of its timers, a rejection of a task's promise.
\<close>

datatype event =
    Exec int string jsval nat "exec_options option"
  | ExecCatch nat js_error nat
  | Terminate bool "nat option"
  | TerminateAndNotify bool "nat option" nat
  | Message int in_msg
  | ErrorEvent js_error
  | ExitEvent jsval jsval
  | ReadyTimerFired
  | ExitTimerFired
  | StatsReset

fun step :: "event \<Rightarrow> handler \<Rightarrow> outcome" where
  "step (Exec now method params res opts) h = exec now method params res opts h"
| "step (ExecCatch tid error d) h = exec_catch tid error d h"
| "step (Terminate force cb) h = terminate force (map_option UserCallback cb) h"
| "step (TerminateAndNotify force timeout d) h = terminateAndNotify force timeout d h"
| "step (Message now m) h = on_message now m h"
| "step (ErrorEvent error) h = Returned (onError error h)"
| "step (ExitEvent exitCode signalCode) h = on_exit exitCode signalCode h"
| "step ReadyTimerFired h = ready_timer_fired h"
| "step ExitTimerFired h = Returned (exit_timer_fired h)"
| "step StatsReset h = Returned (stats_reset h)"

text \<open>
  A run: each event is handled to its end, returning or throwing, before the next one.
\<close>

fun run :: "event list \<Rightarrow> handler \<Rightarrow> handler" where
  "run [] h = h"
| "run (e # es) h = run es (state_of (step e h))"

section \<open>A sample host\<close>

text \<open>
  Objects as the host's constructors hand them out, before \<^verbatim>\<open>setupWorker\<close> marks them:
  a forked child process, a worker thread and a browser worker.
\<close>

definition fresh_child_process :: worker where
  "fresh_child_process =
     \<lparr>isBrowserWorker = False, isWorkerThread = False, isChildProcess = False,
      ready = False, killed = False, kill_fn = True, terminate_fn = False,
      removeAllListeners_fn = True, on_wrapped = False,
      own_maxExec = None, own_responseCount = None,
      spawnargs = JArr [JStr ''node'', JStr ''w.js''], spawnfile = JStr ''node'',
      stdout = JNull, stderr = JNull\<rparr>"

definition fresh_thread_worker :: worker where
  "fresh_thread_worker =
     \<lparr>isBrowserWorker = False, isWorkerThread = False, isChildProcess = False,
      ready = False, killed = False, kill_fn = False, terminate_fn = True,
      removeAllListeners_fn = True, on_wrapped = False,
      own_maxExec = None, own_responseCount = None,
      spawnargs = JUndefined, spawnfile = JUndefined,
      stdout = JNull, stderr = JNull\<rparr>"

definition fresh_web_worker :: worker where
  "fresh_web_worker =
     \<lparr>isBrowserWorker = False, isWorkerThread = False, isChildProcess = False,
      ready = False, killed = False, kill_fn = False, terminate_fn = True,
      removeAllListeners_fn = False, on_wrapped = False,
      own_maxExec = None, own_responseCount = None,
      spawnargs = JUndefined, spawnfile = JUndefined,
      stdout = JUndefined, stderr = JUndefined\<rparr>"

definition node_env :: environment where
  "node_env =
     \<lparr>env_platform = Node, worker_threads = Some fresh_thread_worker, web_worker = None,
      child_process = fresh_child_process, blob_defined = False,
      createObjectURL_defined = False, blob_url = [], dirname = ''/lib''\<rparr>"

definition default_options :: worker_options where
  "default_options =
     \<lparr>workerType = None, opt_concurrency = None, opt_maxExec = None,
      opt_markNotReadyAfterExec = False, opt_readyTimeoutDuration = None,
      opt_initReadyTimeoutDuration = None, opt_onWorkerExit = True,
      opt_onWorkerReady = True\<rparr>"

text \<open>The handler a successful construction yields (the empty handler when it throws).\<close>

definition blank_handler :: handler where
  "blank_handler =
     \<lparr>script = [], transport = fresh_child_process, worker_set = False, concurrency = 1,
      requestCount = 0, responseCount = 0, maxExec = 0, totalTime = 0, minTime = Infinity,
      maxTime = 0, lastTime = 0, markNotReadyAfterExec = False, readyTimeoutDuration = None,
      initReadyTimeoutDuration = None, exit_cb = False, ready_cb = False,
      readyTimeoutTimer = None, requestQueue = [], processing = [], terminating = False,
      terminated = True, terminationHandler = None, lastId = 0, exitTimers = 0,
      exitOnce = 0, trace = []\<rparr>"

definition constructed :: "js_error + handler \<Rightarrow> handler" where
  "constructed x = (case x of Inl e \<Rightarrow> blank_handler | Inr h \<Rightarrow> h)"

section \<open>Sample handlers and messages\<close>

text \<open>A child-process handler for the script \<^verbatim>\<open>w.js\<close>, with both callbacks supplied.\<close>

definition script_handler :: "worker_options \<Rightarrow> handler" where
  "script_handler opts = constructed (WorkerHandler node_env (Some ''w.js'') opts)"

text \<open>A worker-thread handler for the default worker, which is ready at once.\<close>

definition thread_handler :: "worker_options \<Rightarrow> handler" where
  "thread_handler opts =
     constructed (WorkerHandler node_env None (opts\<lparr>workerType := Some ''thread''\<rparr>))"

definition ready_msg :: in_msg where
  "ready_msg = InString ''ready''"

definition result_msg :: "nat \<Rightarrow> jsval \<Rightarrow> in_msg" where
  "result_msg i v =
     InObject \<lparr>r_id = i, r_isEvent = False, r_payload = JUndefined, r_error = JUndefined,
               r_result = v\<rparr>"

definition event_response :: "nat \<Rightarrow> jsval \<Rightarrow> response" where
  "event_response i v =
     \<lparr>r_id = i, r_isEvent = True, r_payload = v, r_error = JUndefined, r_result = JUndefined\<rparr>"

text \<open>The effects of handing an event payload to the sink of a task, if it has one.\<close>

definition on_effects :: "task \<Rightarrow> jsval \<Rightarrow> effect list" where
  "on_effects t payload =
     (case options t of
        None \<Rightarrow> []
      | Some opts \<Rightarrow> (case on_cb opts of None \<Rightarrow> [] | Some f \<Rightarrow> [CallOn f payload]))"





text \<open>Runs used as concrete inputs below.\<close>

definition two_tasks_run :: handler where
  "two_tasks_run =
     run [Message 0 ready_msg, Exec 1 ''a'' JNull 7 None, Exec 2 ''b'' JNull 8 None]
       (script_handler default_options)"

definition maxExec_run :: handler where
  "maxExec_run =
     run [Message 0 ready_msg, Exec 1 ''echo'' (JArr [JNum 42]) 7 None,
          Message 5 (result_msg 1 (JNum 42))]
       (script_handler (default_options\<lparr>opt_maxExec := Some 1\<rparr>))"

definition graceful_run :: handler where
  "graceful_run =
     run [Exec 1 ''long'' JNull 7 None, Terminate False None]
       (thread_handler (default_options\<lparr>opt_concurrency := Some 2\<rparr>))"

definition exec_after_terminate_run :: handler where
  "exec_after_terminate_run =
     run [Terminate False None, Exec 1 ''m'' JNull 7 None] (thread_handler default_options)"

definition notify_timeout_run :: handler where
  "notify_timeout_run =
     run [Message 0 ready_msg, Exec 1 ''long'' JNull 7 None,
          TerminateAndNotify False (Some 100) 9, ReadyTimerFired, ExitTimerFired, StatsReset]
       (script_handler default_options)"



text \<open>A browser host, and the same single task on a browser worker.\<close>

definition browser_env :: environment where
  "browser_env =
     \<lparr>env_platform = Browser, worker_threads = None, web_worker = Some fresh_web_worker,
      child_process = fresh_child_process, blob_defined = True,
      createObjectURL_defined = True, blob_url = ''blob:worker'', dirname = []\<rparr>"

definition browser_task_handler :: handler where
  "browser_task_handler =
     run [Message 0 ready_msg, Exec 1 ''echo'' (JArr [JNum 42]) 7 None]
       (constructed (WorkerHandler browser_env (Some ''w.js'')
          (default_options\<lparr>workerType := Some ''web''\<rparr>)))"

section \<open>Quantities of the proofs\<close>

text \<open>
  The calls of the caller's \<^verbatim>\<open>onWorkerExit\<close> made so far, plus one while the closure
  variable \<^verbatim>\<open>_onWorkerExit\<close> still holds it.
\<close>

definition exit_budget :: "handler \<Rightarrow> nat" where
  "exit_budget h = count_list (trace h) CallOnWorkerExit + (if exit_cb h then 1 else 0)"

text \<open>
  The relation between a state and a later one that the operations of a handler keep:
  the transport object gets no \<^verbatim>\<open>maxExec\<close> of its own, the readiness callback stays,
  a terminated handler stays terminated, a handler gives up its worker only by
  terminating, and while the transport has no \<^verbatim>\<open>maxExec\<close> the exit callback is
  consumed only by a step that leaves the handler terminated.
\<close>

definition keeps :: "handler \<Rightarrow> handler \<Rightarrow> bool" where
  "keeps h h' \<longleftrightarrow>
     own_maxExec (transport h') = own_maxExec (transport h) \<and>
     ready_cb h' = ready_cb h \<and>
     (terminated h \<longrightarrow> terminated h') \<and>
     (worker_set h \<or> terminated h \<longrightarrow> worker_set h' \<or> terminated h') \<and>
     (own_maxExec (transport h) = None \<and> \<not> terminated h' \<longrightarrow> exit_cb h' = exit_cb h)"

section \<open>Properties\<close>

subsection \<open>Loops over tasks and requests\<close>

lemma trace_reject_each:
  "reject_each e ts h = h\<lparr>trace := trace h @ map (\<lambda>x. Reject (resolver (snd x)) e) ts\<rparr>"
  by (induction ts arbitrary: h) (simp_all add: emit_def)

lemma trace_send_each:
  "send_each ms h = h\<lparr>trace := trace h @ map Send ms\<rparr>"
  by (induction ms arbitrary: h) (simp_all add: emit_def)

lemma count_list_map_other: "(\<And>x. f x \<noteq> a) \<Longrightarrow> count_list (map f xs) a = 0"
  by (induction xs) auto

subsection \<open>The error codec\<close>



lemma err_class_copy_props: "err_class (copy_props obj props temp) = err_class temp"
  by (induction props arbitrary: temp) (auto simp: err_set_def)



subsection \<open>What every operation keeps\<close>

lemma keeps_refl [simp]: "keeps h h"
  by (simp add: keeps_def)

lemma keeps_trans: "keeps a b \<Longrightarrow> keeps b c \<Longrightarrow> keeps a c"
  by (auto simp: keeps_def)

lemma keeps_and_then:
  "keeps h (state_of x) \<Longrightarrow> (\<And>h'. keeps h' (state_of (f h'))) \<Longrightarrow>
   keeps h (state_of (and_then x f))"
  by (cases x) (auto intro: keeps_trans)

lemma keeps_clearReadyTimeout [simp]: "keeps h (clearReadyTimeout h)"
  by (simp add: keeps_def clearReadyTimeout_def split: option.splits)

lemma keeps_setReadyTimeout [simp]: "keeps h (setReadyTimeout d h)"
  by (simp add: keeps_def setReadyTimeout_def clearReadyTimeout_def Let_def split: option.splits)

lemma keeps_onWorkerReady [simp]: "keeps h (onWorkerReady h)"
  by (simp add: keeps_def onWorkerReady_def emit_def)

lemma keeps_onError [simp]: "keeps h (onError e h)"
  by (simp add: keeps_def onError_def Let_def trace_reject_each onWorkerExit_def emit_def)

lemma keeps_dispatch [simp]: "keeps h (dispatchQueuedRequests h)"
  by (simp add: keeps_def dispatchQueuedRequests_def trace_send_each)

lemma keeps_cleanup [simp]: "keeps h (state_of (cleanup err h))"
  by (simp add: keeps_def cleanup_def Let_def emit_def call_terminationHandler_def
      split: option.splits term_callback.splits)

lemma keeps_terminate [simp]: "keeps h (state_of (terminate force cb h))"
proof -
  let ?h1 = "clearReadyTimeout h"
  let ?h2 = "if force then (reject_each (new_Error ''Worker terminated'') (processing ?h1) ?h1)
                       \<lparr>processing := []\<rparr> else ?h1"
  let ?h3 = "case cb of Some c \<Rightarrow> ?h2\<lparr>terminationHandler := Some c\<rparr> | None \<Rightarrow> ?h2"
  have a: "keeps h ?h3"
    by (simp add: keeps_def clearReadyTimeout_def trace_reject_each split: option.splits)
  have b: "keeps x (state_of (cleanup err (set_killed (emit y x))))" for x err y
    by (rule keeps_trans [OF _ keeps_cleanup]) (simp add: keeps_def set_killed_def emit_def)
  have c: "keeps ?h3 (state_of (terminate force cb h))"
    by (simp add: terminate_def Let_def b) (simp add: keeps_def emit_def)
  from a c show ?thesis by (rule keeps_trans)
qed


lemma keeps_terminateAndNotify [simp]: "keeps h (state_of (terminateAndNotify force timeout d h))"
proof -
  have "keeps h (case timeout of None \<Rightarrow> h
           | Some t \<Rightarrow> if t = 0 then h else emit (AssignTimeoutProperty d t) h)"
    by (simp add: keeps_def emit_def split: option.splits)
  then show ?thesis
    unfolding terminateAndNotify_def Let_def by (rule keeps_trans) simp
qed

lemma keeps_ready_timer_fired [simp]: "keeps h (state_of (ready_timer_fired h))"
  by (simp add: ready_timer_fired_def split: option.splits)

lemma keeps_exit_timer_fired [simp]: "keeps h (exit_timer_fired h)"
  by (simp add: exit_timer_fired_def Let_def keeps_def emit_def)

lemma keeps_stats_reset [simp]: "keeps h (stats_reset h)"
  by (simp add: stats_reset_def keeps_def)

lemma keeps_settle [simp]: "keeps h (state_of (settle r t h))"
  by (simp add: settle_def keeps_def emit_def split: sum.splits)

lemma keeps_terminal_response [simp]: "keeps h (state_of (terminal_response now r t h))"
  unfolding terminal_response_def Let_def
  apply (rule keeps_and_then)
   apply (simp add: keeps_def setReadyTimeout_def clearReadyTimeout_def Let_def split: option.splits)
  apply (rule keeps_and_then)
   apply (simp add: keeps_def this_maxExec_reached_def onWorkerExit_def emit_def Let_def)
  apply (rule keeps_and_then)
   apply simp
  apply simp
  done

lemma keeps_on_message [simp]: "keeps h (state_of (on_message now m h))"
proof -
  have "keeps h (dispatchQueuedRequests (onWorkerReady
          ((clearReadyTimeout h)\<lparr>transport := (transport (clearReadyTimeout h))\<lparr>ready := True\<rparr>\<rparr>)))"
    by (simp add: keeps_def dispatchQueuedRequests_def trace_send_each onWorkerReady_def emit_def
        clearReadyTimeout_def split: option.splits)
  then show ?thesis
    by (simp add: on_message_def Let_def split: in_msg.splits option.splits)
      (simp add: keeps_def emit_def)
qed

lemma keeps_exit_once_listener [simp]: "keeps h (state_of (exit_once_listener h))"
  unfolding exit_once_listener_def Let_def
  by (rule keeps_trans [OF _ keeps_cleanup]) (simp add: keeps_def set_killed_def)

lemma keeps_run_exit_once [simp]: "keeps h (state_of (run_exit_once n h))"
proof (induction n arbitrary: h)
  case 0
  show ?case by simp
next
  case (Suc n)
  show ?case by (simp, rule keeps_and_then) (simp_all add: Suc)
qed

lemma keeps_on_exit [simp]: "keeps h (state_of (on_exit c s h))"
proof -
  let ?h1 = "onError (new_Error (exit_message c s h)) h"
  have "keeps h (?h1\<lparr>exitOnce := 0\<rparr>)"
    by (rule keeps_trans [OF keeps_onError [of h "new_Error (exit_message c s h)"]])
      (simp add: keeps_def)
  then show ?thesis
    unfolding on_exit_def Let_def by (rule keeps_trans) simp
qed

lemma keeps_exec [simp]: "keeps h (state_of (exec now m p res opts h))"
  by (simp add: exec_def Let_def keeps_def emit_def)

lemma keeps_exec_catch [simp]: "keeps h (state_of (exec_catch tid e d h))"
proof -
  have "keeps h (h\<lparr>processing := AList.delete tid (processing h)\<rparr>)"
    by (simp add: keeps_def)
  then have "keeps h (state_of (terminateAndNotify True None d
      (h\<lparr>processing := AList.delete tid (processing h)\<rparr>)))"
    by (rule keeps_trans) simp
  then show ?thesis by (simp add: exec_catch_def)
qed

lemma keeps_step: "keeps h (state_of (step e h))"
  by (cases e) simp_all

lemma keeps_run: "keeps h (run es h)"
proof (induction es arbitrary: h)
  case Nil
  show ?case by simp
next
  case (Cons e es)
  from keeps_step [of h e] Cons [of "state_of (step e h)"] show ?case
    by (simp, rule keeps_trans)
qed

lemma start_handler_fresh:
  "\<not> terminated (start_handler scr (initial_handler s w opts)) \<and>
   worker_set (start_handler scr (initial_handler s w opts)) \<and>
   exit_cb (start_handler scr (initial_handler s w opts)) = opt_onWorkerExit opts \<and>
   ready_cb (start_handler scr (initial_handler s w opts)) = opt_onWorkerReady opts \<and>
   own_maxExec (transport (start_handler scr (initial_handler s w opts))) = own_maxExec w"
  by (simp add: start_handler_def initial_handler_def Let_def setReadyTimeout_def
      clearReadyTimeout_def onWorkerReady_def emit_def split: option.splits)

lemma WorkerHandler_fresh:
  assumes "WorkerHandler env scr opts = Inr h"
  shows "\<not> terminated h \<and> worker_set h \<and> exit_cb h = opt_onWorkerExit opts \<and>
         ready_cb h = opt_onWorkerReady opts"
  using assms unfolding WorkerHandler_def
  by (auto split: sum.splits simp: start_handler_fresh)

lemma exit_cb_unconsumed:
  assumes "WorkerHandler env scr opts = Inr h" and "own_maxExec (transport h) = None"
    and "\<not> terminated (run es h)"
  shows "exit_cb (run es h) = opt_onWorkerExit opts"
  using keeps_run [of h es] WorkerHandler_fresh [OF assms(1)] assms(2,3)
  by (simp add: keeps_def)

lemma worker_held_until_terminated:
  assumes "WorkerHandler env scr opts = Inr h" and "\<not> terminated (run es h)"
  shows "worker_set (run es h) \<and> ready_cb (run es h) = opt_onWorkerReady opts"
  using keeps_run [of h es] WorkerHandler_fresh [OF assms(1)] assms(2)
  by (simp add: keeps_def)

subsection \<open>The exit callback\<close>

lemma budget_and_then:
  "exit_budget (state_of x) = b \<Longrightarrow> (\<And>h'. exit_budget h' = b \<Longrightarrow> exit_budget (state_of (f h')) = b)
   \<Longrightarrow> exit_budget (state_of (and_then x f)) = b"
  by (cases x) auto

lemma budget_update [simp]:
  "exit_budget (h\<lparr>processing := ps\<rparr>) = exit_budget h"
  "exit_budget (h\<lparr>terminating := b\<rparr>) = exit_budget h"
  "exit_budget (h\<lparr>transport := w\<rparr>) = exit_budget h"
  "exit_budget (h\<lparr>exitOnce := n\<rparr>) = exit_budget h"
  "exit_budget (h\<lparr>lastTime := i\<rparr>) = exit_budget h"
  "exit_budget (h\<lparr>maxTime := i\<rparr>) = exit_budget h"
  "exit_budget (h\<lparr>minTime := tb\<rparr>) = exit_budget h"
  "exit_budget (h\<lparr>totalTime := i\<rparr>) = exit_budget h"
  "exit_budget (h\<lparr>responseCount := n\<rparr>) = exit_budget h"
  by (simp_all add: exit_budget_def)

lemma budget_clearReadyTimeout [simp]: "exit_budget (clearReadyTimeout h) = exit_budget h"
  by (simp add: clearReadyTimeout_def exit_budget_def split: option.splits)

lemma budget_setReadyTimeout [simp]: "exit_budget (setReadyTimeout d h) = exit_budget h"
  by (simp add: setReadyTimeout_def Let_def exit_budget_def clearReadyTimeout_def split: option.splits)

lemma budget_onWorkerExit [simp]: "exit_budget (onWorkerExit h) = exit_budget h"
  by (simp add: onWorkerExit_def Let_def exit_budget_def emit_def)

lemma budget_onWorkerReady [simp]: "exit_budget (onWorkerReady h) = exit_budget h"
  by (simp add: onWorkerReady_def exit_budget_def emit_def)

lemma budget_onError [simp]: "exit_budget (onError e h) = exit_budget h"
  by (simp add: onError_def Let_def exit_budget_def emit_def onWorkerExit_def trace_reject_each count_list_map_other)

lemma budget_dispatch [simp]: "exit_budget (dispatchQueuedRequests h) = exit_budget h"
  by (simp add: dispatchQueuedRequests_def exit_budget_def trace_send_each count_list_map_other)

lemma budget_cleanup [simp]: "exit_budget (state_of (cleanup err h)) = exit_budget h"
  by (simp add: cleanup_def Let_def exit_budget_def emit_def call_terminationHandler_def
      split: option.splits term_callback.splits)

lemma budget_terminate [simp]: "exit_budget (state_of (terminate force cb h)) = exit_budget h"
proof -
  have a: "\<And>h. exit_budget (set_killed (emit Kill h)) = exit_budget h"
    "\<And>h. exit_budget (set_killed (emit TerminateWorker h)) = exit_budget h"
    by (simp_all add: set_killed_def emit_def exit_budget_def)
  show ?thesis
    by (simp add: terminate_def Let_def a)
      (simp add: exit_budget_def emit_def trace_reject_each count_list_map_other clearReadyTimeout_def
        split: option.splits)
qed


lemma budget_terminateAndNotify [simp]:
  "exit_budget (state_of (terminateAndNotify force timeout d h)) = exit_budget h"
  by (simp add: terminateAndNotify_def Let_def split: option.splits)
    (simp add: exit_budget_def emit_def)

lemma budget_ready_timer_fired [simp]: "exit_budget (state_of (ready_timer_fired h)) = exit_budget h"
  by (simp add: ready_timer_fired_def split: option.splits)

lemma budget_exit_timer_fired [simp]: "exit_budget (exit_timer_fired h) = exit_budget h"
  by (simp add: exit_timer_fired_def Let_def exit_budget_def emit_def)

lemma budget_stats_reset [simp]: "exit_budget (stats_reset h) = exit_budget h"
  by (simp add: stats_reset_def exit_budget_def)

lemma budget_settle [simp]: "exit_budget (state_of (settle r t h)) = exit_budget h"
  by (simp add: settle_def exit_budget_def emit_def split: sum.splits)

lemma budget_terminal_response [simp]:
  "exit_budget (state_of (terminal_response now r t h)) = exit_budget h"
  unfolding terminal_response_def Let_def
  apply (rule budget_and_then)
   apply simp
  apply (rule budget_and_then)
   apply simp
  apply (rule budget_and_then)
   apply simp
  apply simp
  done

lemma budget_on_message [simp]: "exit_budget (state_of (on_message now m h)) = exit_budget h"
  by (simp add: on_message_def Let_def split: in_msg.splits option.splits)
    (simp add: exit_budget_def emit_def clearReadyTimeout_def split: option.splits)

lemma budget_exit_once_listener [simp]:
  "exit_budget (state_of (exit_once_listener h)) = exit_budget h"
  by (simp add: exit_once_listener_def Let_def) (simp add: exit_budget_def set_killed_def)

lemma budget_run_exit_once [simp]: "exit_budget (state_of (run_exit_once n h)) = exit_budget h"
proof (induction n arbitrary: h)
  case 0
  show ?case by simp
next
  case (Suc n)
  show ?case by (simp, rule budget_and_then) (simp_all add: Suc)
qed

lemma budget_on_exit [simp]: "exit_budget (state_of (on_exit c s h)) = exit_budget h"
  by (simp add: on_exit_def Let_def)

lemma budget_exec [simp]: "exit_budget (state_of (exec now m p res opts h)) = exit_budget h"
  by (simp add: exec_def Let_def exit_budget_def emit_def)

lemma budget_exec_catch [simp]: "exit_budget (state_of (exec_catch tid e d h)) = exit_budget h"
  by (simp add: exec_catch_def)

lemma budget_step: "exit_budget (state_of (step e h)) = exit_budget h"
  by (cases e) simp_all

lemma budget_run: "exit_budget (run es h) = exit_budget h"
  by (induction es arbitrary: h) (simp_all add: budget_step)

lemma budget_start_handler:
  "exit_budget (start_handler scr (initial_handler s w opts)) \<le> Suc 0"
proof -
  have "exit_budget (initial_handler s w opts) \<le> Suc 0"
    by (simp add: exit_budget_def initial_handler_def)
  then show ?thesis by (simp add: start_handler_def Let_def)
qed

lemma budget_WorkerHandler: "WorkerHandler env scr opts = Inr h \<Longrightarrow> exit_budget h \<le> 1"
  unfolding WorkerHandler_def
  by (auto split: sum.splits intro: budget_start_handler)

text \<open>
  Claim C6, amended. Over any run of a constructed handler the caller's
  \<^verbatim>\<open>onWorkerExit\<close> is called at most once. The caller's \<^verbatim>\<open>onWorkerReady\<close> is not
  single-shot: after any run that leaves the handler not terminated, processing a
  \<^verbatim>\<open>"ready"\<close> signal calls it once more.
\<close>

theorem exit_callback_once_ready_callback_each_signal:
  assumes "WorkerHandler env scr opts = Inr h"
  shows "count_list (trace (run es h)) CallOnWorkerExit \<le> 1 \<and>
         (opt_onWorkerReady opts \<and> \<not> terminated (run es h) \<longrightarrow>
            count_list (trace (state_of (on_message now (InString ''ready'') (run es h))))
              CallOnWorkerReady = count_list (trace (run es h)) CallOnWorkerReady + 1)"
proof
  have "count_list (trace (run es h)) CallOnWorkerExit \<le> exit_budget (run es h)"
    by (simp add: exit_budget_def)
  also have "\<dots> = exit_budget h" by (rule budget_run)
  also have "\<dots> \<le> 1" using assms by (rule budget_WorkerHandler)
  finally show "count_list (trace (run es h)) CallOnWorkerExit \<le> 1" .
next
  have "\<not> terminated g \<and> worker_set g \<and> ready_cb g \<longrightarrow>
            count_list (trace (state_of (on_message now (InString ''ready'') g)))
              CallOnWorkerReady = count_list (trace g) CallOnWorkerReady + 1" for g
    by (simp add: on_message_def Let_def clearReadyTimeout_def dispatchQueuedRequests_def
        trace_send_each onWorkerReady_def emit_def count_list_map_other split: option.splits)
  with worker_held_until_terminated [OF assms, of es]
  show "opt_onWorkerReady opts \<and> \<not> terminated (run es h) \<longrightarrow>
            count_list (trace (state_of (on_message now (InString ''ready'') (run es h))))
              CallOnWorkerReady = count_list (trace (run es h)) CallOnWorkerReady + 1"
    by blast
qed

lemma script_handler_constructed:
  "WorkerHandler node_env (Some ''w.js'') default_options = Inr (script_handler default_options)"
proof -
  have "\<exists>h. WorkerHandler node_env (Some ''w.js'') default_options = Inr h"
    by (simp add: WorkerHandler_def setupWorker_def default_options_def)
  then show ?thesis by (auto simp: script_handler_def constructed_def)
qed

theorem exit_callback_once_ready_callback_each_signal_witness:
  "WorkerHandler node_env (Some ''w.js'') default_options = Inr (script_handler default_options) \<and>
   count_list (trace (run [Message 0 ready_msg, Exec 1 ''echo'' (JArr [JNum 42]) 7 None,
      ErrorEvent (new_Error ''first''), ErrorEvent (new_Error ''late'')]
      (script_handler default_options))) CallOnWorkerExit = 1 \<and>
   opt_onWorkerReady default_options \<and>
   \<not> terminated (run [Message 0 ready_msg] (script_handler default_options)) \<and>
   count_list (trace (state_of (on_message 1 (InString ''ready'')
      (run [Message 0 ready_msg] (script_handler default_options))))) CallOnWorkerReady = 2"
proof -
  let ?es = "[Message 0 ready_msg, Exec 1 ''echo'' (JArr [JNum 42]) 7 None,
      ErrorEvent (new_Error ''first''), ErrorEvent (new_Error ''late'')]"
  note t = exit_callback_once_ready_callback_each_signal [OF script_handler_constructed]
  have a: "opt_onWorkerReady default_options" by (simp add: default_options_def)
  have b: "\<not> terminated (run [Message 0 ready_msg] (script_handler default_options))"
    by code_simp
  have c: "count_list (trace (run [Message 0 ready_msg] (script_handler default_options)))
      CallOnWorkerReady = 1"
    by code_simp
  have d: "1 \<le> count_list (trace (run ?es (script_handler default_options))) CallOnWorkerExit"
    by code_simp
  from t [of ?es] d
  have e: "count_list (trace (run ?es (script_handler default_options))) CallOnWorkerExit = 1"
    by simp
  from t [of "[Message 0 ready_msg]" 1] a b c
  have f: "count_list (trace (state_of (on_message 1 (InString ''ready'')
      (run [Message 0 ready_msg] (script_handler default_options))))) CallOnWorkerReady = 2"
    by simp
  from script_handler_constructed a b e f show ?thesis by blast
qed

text \<open>
  Two readiness epochs of a handler with \<^verbatim>\<open>markNotReadyAfterExec\<close>: the caller's
  \<^verbatim>\<open>onWorkerReady\<close> is called twice.
\<close>

theorem onWorkerReady_called_twice:
  "\<not> count_list (trace (run [Message 0 ready_msg, Exec 1 ''echo'' (JArr [JNum 42]) 7 None,
        Message 5 (result_msg 1 (JNum 42)), Message 6 ready_msg]
        (script_handler (default_options\<lparr>opt_markNotReadyAfterExec := True\<rparr>))))
      CallOnWorkerReady \<le> 1"
  by code_simp

subsection \<open>Event messages\<close>

text \<open>
  Claim C10. A message with \<^verbatim>\<open>isEvent\<close> for a task in the in-flight table hands the
  payload to the task's \<^verbatim>\<open>options.on\<close>, when the task has one, and changes nothing
  else: the handler comes back as it was but for that call, so the task stays in the
  table, no resolver is settled, and counters, timing statistics and flags keep their
  values. (A terminated handler drops the message whole.)
\<close>

theorem event_message_frame:
  assumes "map_of (processing h) (r_id r) = Some t" and "r_isEvent r"
  shows "on_message now (InObject r) h =
           Returned (h\<lparr>trace := trace h @
              (if terminated h then [] else on_effects t (r_payload r))\<rparr>)"
  using assms by (simp add: on_message_def emit_def on_effects_def split: option.splits)

theorem event_message_frame_witness:
  "map_of (processing (run [Message 0 ready_msg, Exec 1 ''stream'' (JArr []) 7 (Some \<lparr>on_cb = Some 3\<rparr>)]
      (script_handler default_options))) (r_id (event_response 1 (JStr ''a'')))
     = Some \<lparr>t_id = 1, resolver = 7, options = Some \<lparr>on_cb = Some 3\<rparr>, started = 1\<rparr> \<and>
   r_isEvent (event_response 1 (JStr ''a'')) \<and>
   trace (state_of (on_message 2 (InObject (event_response 1 (JStr ''a'')))
     (run [Message 0 ready_msg, Exec 1 ''stream'' (JArr []) 7 (Some \<lparr>on_cb = Some 3\<rparr>)]
      (script_handler default_options))))
     = [CallOnWorkerReady, Send (Request 1 ''stream'' (JArr [])), CallOn 3 (JStr ''a'')]"
proof -
  let ?h = "run [Message 0 ready_msg, Exec 1 ''stream'' (JArr []) 7 (Some \<lparr>on_cb = Some 3\<rparr>)]
      (script_handler default_options)"
  let ?t = "\<lparr>t_id = 1, resolver = 7, options = Some \<lparr>on_cb = Some 3\<rparr>, started = 1\<rparr>"
  have a: "map_of (processing ?h) (r_id (event_response 1 (JStr ''a''))) = Some ?t"
    by code_simp
  have b: "r_isEvent (event_response 1 (JStr ''a''))"
    by (simp add: event_response_def)
  have c: "trace ?h = [CallOnWorkerReady, Send (Request 1 ''stream'' (JArr []))]"
    by code_simp
  have d: "\<not> terminated ?h" by code_simp
  have e: "on_effects ?t (r_payload (event_response 1 (JStr ''a''))) = [CallOn 3 (JStr ''a'')]"
    by (simp add: on_effects_def event_response_def)
  from event_message_frame [OF a b, of 2] a b c d e show ?thesis by simp
qed

subsection \<open>Transport errors and exits\<close>

lemma sublist_skip: "sublist xs zs \<Longrightarrow> sublist xs (ys @ zs)"
  by (auto simp: sublist_append)

lemma exit_message_includes:
  "sublist (js_to_string exitCode) (exit_message exitCode signalCode h)"
  "sublist (js_to_string signalCode) (exit_message exitCode signalCode h)"
  "sublist (script h) (exit_message exitCode signalCode h)"
  "sublist (js_to_string (spawnargs (transport h))) (exit_message exitCode signalCode h)"
  "sublist (js_to_string (spawnfile (transport h))) (exit_message exitCode signalCode h)"
  "sublist (js_to_string (stdout (transport h))) (exit_message exitCode signalCode h)"
  "sublist (js_to_string (stderr (transport h))) (exit_message exitCode signalCode h)"
  unfolding exit_message_def by (rule sublist_append_rightI | rule sublist_skip)+

lemma onError_eq:
  "onError e h =
     h\<lparr>terminated := True, processing := [], exit_cb := False,
       trace := trace h @ map (\<lambda>x. Reject (resolver (snd x)) e) (processing h) @
                (if exit_cb h then [CallOnWorkerExit] else [])\<rparr>"
  by (simp add: onError_def Let_def trace_reject_each onWorkerExit_def emit_def)

lemma cleanup_None:
  "\<exists>h' tr. cleanup None h = Returned h' \<and> terminated h' \<and>
     processing h' = processing h \<and> trace h' = trace h @ tr"
  by (cases "terminationHandler h")
    (auto simp: cleanup_def Let_def emit_def call_terminationHandler_def
      split: term_callback.splits)

lemma exit_once_listener_keeps:
  "\<exists>h' tr. exit_once_listener h = Returned h' \<and> terminated h' \<and>
     processing h' = processing h \<and> trace h' = trace h @ tr"
proof -
  let ?h1 = "h\<lparr>exitTimers := exitTimers h - 1\<rparr>"
  let ?h2 = "if worker_set ?h1 then set_killed ?h1 else ?h1"
  from cleanup_None [of ?h2] obtain h' tr where
    "cleanup None ?h2 = Returned h'" "terminated h'" "processing h' = processing ?h2"
    "trace h' = trace ?h2 @ tr"
    by blast
  then show ?thesis
    by (auto simp: exit_once_listener_def Let_def set_killed_def)
qed

lemma run_exit_once_keeps:
  "terminated h \<Longrightarrow>
   \<exists>h' tr. run_exit_once n h = Returned h' \<and> terminated h' \<and>
     processing h' = processing h \<and> trace h' = trace h @ tr"
proof (induction n arbitrary: h)
  case 0
  then show ?case by simp
next
  case (Suc n)
  from exit_once_listener_keeps [of h] obtain h1 tr1 where
    h1: "exit_once_listener h = Returned h1" "terminated h1"
        "processing h1 = processing h" "trace h1 = trace h @ tr1"
    by blast
  from Suc.IH [OF h1(2)] obtain h2 tr2 where
    h2: "run_exit_once n h1 = Returned h2" "terminated h2"
        "processing h2 = processing h1" "trace h2 = trace h1 @ tr2"
    by blast
  from h1 h2 show ?case by simp
qed

text \<open>
  Claim C7. An \<^verbatim>\<open>"error"\<close> or \<^verbatim>\<open>"exit"\<close> event on a handler that is not terminated sets
  \<open>terminated\<close>, rejects every task of the in-flight table with one and the same
  error, empties the table and then calls \<^verbatim>\<open>onWorkerExit\<close>. For \<^verbatim>\<open>"exit"\<close> the error
  is a fresh one whose message includes the exit code, the signal code, the script and
  the diagnostic attributes of the transport. The call of \<^verbatim>\<open>onWorkerExit\<close> reaches the
  caller's function while the handler still holds it, and a handler that is not
  terminated does still hold the function it was constructed with, whatever has
  happened to it since its construction (its transport having no \<^verbatim>\<open>maxExec\<close> property
  of its own).
\<close>

theorem transport_failure_rejects_all:
  assumes "\<not> terminated h"
  shows "onError e h =
           h\<lparr>terminated := True, processing := [], exit_cb := False,
             trace := trace h @ map (\<lambda>x. Reject (resolver (snd x)) e) (processing h) @
                      (if exit_cb h then [CallOnWorkerExit] else [])\<rparr> \<and>
         (\<exists>h' rest. on_exit exitCode signalCode h = Returned h' \<and>
            terminated h' \<and> processing h' = [] \<and>
            trace h' = trace h @
              map (\<lambda>x. Reject (resolver (snd x))
                     (new_Error (exit_message exitCode signalCode h))) (processing h) @
              (if exit_cb h then [CallOnWorkerExit] else []) @ rest) \<and>
         err_get (new_Error (exit_message exitCode signalCode h)) ''message''
           = JStr (exit_message exitCode signalCode h) \<and>
         sublist (js_to_string exitCode) (exit_message exitCode signalCode h) \<and>
         sublist (js_to_string signalCode) (exit_message exitCode signalCode h) \<and>
         sublist (script h) (exit_message exitCode signalCode h) \<and>
         sublist (js_to_string (spawnargs (transport h))) (exit_message exitCode signalCode h) \<and>
         sublist (js_to_string (spawnfile (transport h))) (exit_message exitCode signalCode h) \<and>
         sublist (js_to_string (stdout (transport h))) (exit_message exitCode signalCode h) \<and>
         sublist (js_to_string (stderr (transport h))) (exit_message exitCode signalCode h) \<and>
         (WorkerHandler env scr opts = Inr h0 \<and> own_maxExec (transport h0) = None \<and>
          h = run es h0 \<longrightarrow> exit_cb h = opt_onWorkerExit opts)"
proof -
  let ?E = "new_Error (exit_message exitCode signalCode h)"
  let ?h1 = "(onError ?E h)\<lparr>exitOnce := 0\<rparr>"
  have t1: "terminated ?h1" by (simp add: onError_eq)
  from run_exit_once_keeps [OF t1, of "exitOnce (onError ?E h)"] obtain h' rest where
    r: "run_exit_once (exitOnce (onError ?E h)) ?h1 = Returned h'" "terminated h'"
       "processing h' = processing ?h1" "trace h' = trace ?h1 @ rest"
    by blast
  have "on_exit exitCode signalCode h = Returned h'"
    using r(1) by (simp add: on_exit_def Let_def)
  moreover have "processing h' = []" using r(3) by (simp add: onError_eq)
  moreover have "trace h' = trace h @ map (\<lambda>x. Reject (resolver (snd x)) ?E) (processing h) @
              (if exit_cb h then [CallOnWorkerExit] else []) @ rest"
    using r(4) by (simp add: onError_eq)
  ultimately have ex: "\<exists>h' rest. on_exit exitCode signalCode h = Returned h' \<and>
            terminated h' \<and> processing h' = [] \<and>
            trace h' = trace h @ map (\<lambda>x. Reject (resolver (snd x)) ?E) (processing h) @
              (if exit_cb h then [CallOnWorkerExit] else []) @ rest"
    using r(2) by blast
  have msg: "err_get ?E ''message'' = JStr (exit_message exitCode signalCode h)"
    by (simp add: new_Error_def err_get_def get_prop_def)
  have held: "WorkerHandler env scr opts = Inr h0 \<and> own_maxExec (transport h0) = None \<and>
          h = run es h0 \<longrightarrow> exit_cb h = opt_onWorkerExit opts"
    using assms exit_cb_unconsumed [of env scr opts h0 es] by blast
  show ?thesis
    by (intro conjI) (rule onError_eq ex msg exit_message_includes held)+
qed

theorem transport_failure_rejects_all_witness:
  "\<not> terminated two_tasks_run \<and>
   WorkerHandler node_env (Some ''w.js'') default_options = Inr (script_handler default_options) \<and>
   own_maxExec (transport (script_handler default_options)) = None \<and>
   terminated (onError (new_Error ''boom'') two_tasks_run) \<and>
   processing (onError (new_Error ''boom'') two_tasks_run) = [] \<and>
   trace (onError (new_Error ''boom'') two_tasks_run) =
     [CallOnWorkerReady, Send (Request 1 ''a'' JNull), Send (Request 2 ''b'' JNull),
      Reject 7 (new_Error ''boom''), Reject 8 (new_Error ''boom''), CallOnWorkerExit]"
proof -
  let ?es = "[Message 0 ready_msg, Exec 1 ''a'' JNull 7 None, Exec 2 ''b'' JNull 8 None]"
  have a: "\<not> terminated two_tasks_run" by code_simp
  have b: "trace two_tasks_run =
      [CallOnWorkerReady, Send (Request 1 ''a'' JNull), Send (Request 2 ''b'' JNull)]"
    by code_simp
  have c: "map (resolver \<circ> snd) (processing two_tasks_run) = [7, 8]" by code_simp
  have m: "own_maxExec (transport (script_handler default_options)) = None" by code_simp
  have o: "opt_onWorkerExit default_options" by (simp add: default_options_def)
  have r: "two_tasks_run = run ?es (script_handler default_options)"
    by (simp add: two_tasks_run_def)
  note t = transport_failure_rejects_all [OF a, of "new_Error ''boom''" JNull JNull
      node_env "Some ''w.js''" default_options "script_handler default_options" ?es]
  from t script_handler_constructed m r o have d: "exit_cb two_tasks_run" by blast
  from t have e: "onError (new_Error ''boom'') two_tasks_run =
      two_tasks_run\<lparr>terminated := True, processing := [], exit_cb := False,
        trace := trace two_tasks_run @
          map (\<lambda>x. Reject (resolver (snd x)) (new_Error ''boom'')) (processing two_tasks_run) @
          (if exit_cb two_tasks_run then [CallOnWorkerExit] else [])\<rparr>"
    by blast
  have f: "map (\<lambda>x. Reject (resolver (snd x)) (new_Error ''boom'')) (processing two_tasks_run)
      = map (\<lambda>r. Reject r (new_Error ''boom'')) (map (resolver \<circ> snd) (processing two_tasks_run))"
    by simp
  show ?thesis using a script_handler_constructed m by (simp add: e b d f c del: map_map)
qed

subsection \<open>Requests submitted before readiness\<close>





subsection \<open>The lifetime cap\<close>

text \<open>
  Claim C1 at a concrete handler. A child-process handler with \<^verbatim>\<open>maxExec = 1\<close> runs
  one task to its response. The response is counted, so that \<open>responseCount\<close> has
  reached \<open>maxExec\<close>, but the handler neither enters \<open>terminating\<close> nor calls
  \<^verbatim>\<open>onWorkerExit\<close>: the listener reads \<^verbatim>\<open>maxExec\<close> and \<^verbatim>\<open>responseCount\<close> from the
  transport object, which has neither.
\<close>

theorem maxExec_reached_without_terminating:
  "maxExec maxExec_run = 1 \<and> responseCount maxExec_run = 1 \<and>
   \<not> terminating maxExec_run \<and> \<not> terminated maxExec_run \<and>
   trace maxExec_run =
     [CallOnWorkerReady, Send (Request 1 ''echo'' (JArr [JNum 42])), Resolve 7 (JNum 42)]"
  by code_simp

text \<open>
  On a browser worker the listener is called as a plain function, and the same read
  throws: the response is counted and the task removed, but its resolver is never
  settled.
\<close>

lemma browser_response_throws:
  "on_message 5 (result_msg 1 (JNum 42)) browser_task_handler =
     Threw (new_TypeError ''Cannot read properties of undefined (reading 'maxExec')'')
       (browser_task_handler\<lparr>lastTime := 4, maxTime := 4, minTime := Finite 4, totalTime := 4,
          responseCount := 1, processing := []\<rparr>) \<and>
   trace browser_task_handler =
     [CallOnWorkerReady, Send (Request 1 ''echo'' (JArr [JNum 42]))]"
  by code_simp

subsection \<open>Graceful termination\<close>

text \<open>
  Claim C2 at a concrete handler. A worker-thread handler with \<^verbatim>\<open>concurrency = 2\<close> has
  one task in flight when \<^verbatim>\<open>terminate(false)\<close> is called. The handler is not busy, so
  the worker is killed and dropped at once, the handler is terminated, and the task is
  left in the table with its resolver unsettled.
\<close>

theorem graceful_terminate_kills_with_task_in_flight:
  "map fst (processing graceful_run) = [1] \<and>
   terminated graceful_run \<and> \<not> worker_set graceful_run \<and> \<not> terminating graceful_run \<and>
   trace graceful_run =
     [CallOnWorkerReady, Send (Request 1 ''long'' JNull), Kill, RemoveAllListeners]"
  by code_simp

subsection \<open>exec on a terminated handler\<close>

text \<open>
  Claim C3 at a concrete handler. An idle worker-thread handler is terminated and then
  asked to run a task. The resolver is rejected at once, and the task stays in the
  in-flight table of the terminated handler.
\<close>

theorem exec_on_terminated_keeps_task:
  "terminated exec_after_terminate_run \<and>
   processing exec_after_terminate_run =
     [(1, \<lparr>t_id = 1, resolver = 7, options = None, started = 1\<rparr>)] \<and>
   trace exec_after_terminate_run =
     [CallOnWorkerReady, Kill, RemoveAllListeners,
      Reject 7 (new_Error ''Worker is terminated'')]"
  by code_simp

subsection \<open>terminateAndNotify with a timeout\<close>

text \<open>
  Claim C5 at a concrete handler. A busy child-process handler is asked to terminate
  with \<^verbatim>\<open>terminateAndNotify(false, 100)\<close>. The timeout is stored in a property of the
  promise and arms no timer: after the call, and after every timer of the handler has
  had its turn, the deferred is neither resolved nor rejected and the handler is still
  waiting for its task.
\<close>

theorem terminateAndNotify_timeout_arms_nothing:
  "trace notify_timeout_run =
     [CallOnWorkerReady, Send (Request 1 ''long'' JNull), AssignTimeoutProperty 9 100] \<and>
   terminating notify_timeout_run \<and> \<not> terminated notify_timeout_run \<and>
   terminationHandler notify_timeout_run = Some (NotifyResolver 9) \<and>
   readyTimeoutTimer notify_timeout_run = None \<and> exitTimers notify_timeout_run = 0"
  by code_simp

subsection \<open>Expiry of the readiness timer\<close>





end
